theory Spec2Isabelle
  imports Main "HOL-Library.Sublist"
begin

section \<open>Values exchanged with the remote API\<close>

text \<open>
  The view in \<^verbatim>\<open>admin.candidates.jsx\<close> never looks inside a candidate, an error row
  or the \<^verbatim>\<open>new\<close> payload of a duplicate while it handles an upload or a resolution:
  it stores them and hands them back. They are kept as JSON values.
\<close>

datatype json =
    JNull
  | JBool bool
  | JNum int
  | JStr string
  | JArr "json list"
  | JObj "(string \<times> json) list"

text \<open>The selected file: the handler reads \<^verbatim>\<open>file.name\<close> and sends the file whole.\<close>

record selected_file =
  name :: string
  content :: string

text \<open>The change event of the file input: \<^verbatim>\<open>event.target.files\<close>.\<close>

record event =
  files :: "selected_file list"

text \<open>The two action strings of the source, \<^verbatim>\<open>'update'\<close> and \<^verbatim>\<open>'skip'\<close>.\<close>

datatype action = update | skip

text \<open>One entry of \<^verbatim>\<open>result.duplicates\<close>: the incoming row and the records it matches.\<close>

record duplicate =
  new :: json
  existing :: "json list"

text \<open>
  One entry of the \<^verbatim>\<open>duplicateDecisions\<close> object; \<^verbatim>\<open>{ action: 'skip' }\<close> has no
  \<^verbatim>\<open>existing_id\<close>, so reading it gives \<^verbatim>\<open>undefined\<close>, here \<open>None\<close>.
\<close>

record decision =
  action :: action
  existing_id :: "int option"

text \<open>One entry of the array posted to \<^verbatim>\<open>/candidates/resolve-duplicates\<close>.\<close>

record resolution =
  new :: json
  action :: action
  existing_id :: "int option"

text \<open>
  The parsed body of an upload or resolution response. A field that is absent (or
  \<^verbatim>\<open>null\<close>) is \<open>None\<close>: the source tests \<^verbatim>\<open>result.duplicates\<close> and
  \<^verbatim>\<open>result.error\<close> for presence, and reads \<^verbatim>\<open>.length\<close> of
  \<^verbatim>\<open>result.success\<close> and \<^verbatim>\<open>result.errors\<close>, which throws when they are absent.
\<close>

record result =
  success :: "json list option"
  errors :: "json list option"
  duplicates :: "duplicate list option"
  error :: "string option"

text \<open>A thrown value, of which the handlers read only \<^verbatim>\<open>.message\<close>.\<close>

datatype js_error = Error string

text \<open>How an awaited promise settles.\<close>

datatype 'a promise = Rejected js_error | Resolved 'a

text \<open>
  A response: \<^verbatim>\<open>response.ok\<close>, \<^verbatim>\<open>response.headers.get('content-type')\<close>
  (\<^verbatim>\<open>null\<close> when the header is missing) and the promise of \<^verbatim>\<open>response.json()\<close>.
\<close>

record 'b response =
  ok :: bool
  content_type :: "string option"
  json :: "'b promise"

text \<open>
  The calls on the API object: \<^verbatim>\<open>api.get(path)\<close>, \<^verbatim>\<open>api.uploadFile(path, formData)\<close>
  with the form's single \<^verbatim>\<open>file\<close> field, and \<^verbatim>\<open>api.post(path, decisions)\<close>.
\<close>

datatype request =
    Get string
  | UploadFile string selected_file
  | Post string "resolution list"

section \<open>View state\<close>

datatype status_type = success_type | error_type

record upload_status =
  type :: status_type
  message :: string

text \<open>The eight \<^verbatim>\<open>useState\<close> cells of \<^verbatim>\<open>CandidatesAdmin\<close>, under their source names.\<close>

record view_state =
  candidates :: "json list"
  loading :: bool
  error :: "string option"
  uploadStatus :: "upload_status option"
  isUploading :: bool
  showDuplicateModal :: bool
  duplicateData :: "duplicate list option"
  duplicateDecisions :: "nat \<rightharpoonup> decision"

definition initial_view :: view_state where
  "initial_view =
     \<lparr>candidates = [], loading = True, error = None, uploadStatus = None,
      isUploading = False, showDuplicateModal = False, duplicateData = None,
      duplicateDecisions = Map.empty\<rparr>"

text \<open>
  What a handler can change besides the view state: the requests it has issued, in
  order, the lines written with \<^verbatim>\<open>console.error\<close>, and the value of the file input
  (\<^verbatim>\<open>event.target.value\<close>).
\<close>

record world =
  view :: view_state
  requests :: "request list"
  console :: "(string \<times> js_error) list"
  file_input_value :: string

section \<open>JavaScript operators used by the handlers\<close>

definition err_message :: "js_error \<Rightarrow> string" where
  "err_message e = (case e of Error m \<Rightarrow> m)"

text \<open>\<^verbatim>\<open>a || b\<close> on strings: the empty string is falsy.\<close>

definition or_else :: "string \<Rightarrow> string \<Rightarrow> string" where
  "or_else a b = (if a = [] then b else a)"

text \<open>\<^verbatim>\<open>result.error || b\<close>, where the field may be absent.\<close>

definition field_or_else :: "string option \<Rightarrow> string \<Rightarrow> string" where
  "field_or_else f b = (case f of None \<Rightarrow> b | Some a \<Rightarrow> or_else a b)"

text \<open>\<^verbatim>\<open>haystack.includes(needle)\<close>: the needle starts at some position.\<close>

primrec js_includes :: "string \<Rightarrow> string \<Rightarrow> bool" where
  "js_includes [] needle = (needle = [])"
| "js_includes (c # cs) needle = (prefix needle (c # cs) \<or> js_includes cs needle)"

text \<open>A number inside a template literal: its decimal digits.\<close>

fun show_nat :: "nat \<Rightarrow> string" where
  "show_nat n =
     (if n < 10 then [''0123456789'' ! n]
      else show_nat (n div 10) @ [''0123456789'' ! (n mod 10)])"

declare show_nat.simps [simp del]

text \<open>
  The text of the TypeError an engine throws for \<^verbatim>\<open>undefined.length\<close>. The wording
  is the engine's (V8's is used here). For a field that is \<^verbatim>\<open>null\<close> the engine names
  \<^verbatim>\<open>null\<close> in place of \<^verbatim>\<open>undefined\<close>; the record \<open>result\<close> does not tell
  the two apart, and no statement below mentions the text.
\<close>

definition undefined_length_message :: string where
  "undefined_length_message = ''Cannot read properties of undefined (reading 'length')''"

text \<open>\<^verbatim>\<open>field.length\<close> of an array field that may be absent.\<close>

definition array_length :: "'a list option \<Rightarrow> js_error + nat" where
  "array_length f =
     (case f of None \<Rightarrow> Inl (Error undefined_length_message) | Some xs \<Rightarrow> Inr (length xs))"

subsection \<open>The file-name pattern\<close>

text \<open>
  The fragment of regular expressions that \<^verbatim>\<open>/\.(csv|xlsx|xls)$/\<close> is written in:
  literal text, sequence, alternation and the end-of-input assertion. The pattern has no
  flags, so literals match exactly and \<^verbatim>\<open>$\<close> matches at the end of the input only.
  \<open>rmatch r s\<close> lists what is left of \<open>s\<close> after each way \<open>r\<close> matches a prefix of it.
\<close>

datatype regex = Str string | Cat regex regex | Alt regex regex | Eoi

fun rmatch :: "regex \<Rightarrow> string \<Rightarrow> string list" where
  "rmatch (Str w) s = (if prefix w s then [drop (length w) s] else [])"
| "rmatch (Cat r1 r2) s = concat (map (rmatch r2) (rmatch r1 s))"
| "rmatch (Alt r1 r2) s = rmatch r1 s @ rmatch r2 s"
| "rmatch Eoi s = (if s = [] then [[]] else [])"

text \<open>
  \<^verbatim>\<open>s.match(r)\<close> is not \<^verbatim>\<open>null\<close>: the pattern is not anchored at the start, so the
  match may begin at any position of \<open>s\<close>.
\<close>

definition js_match :: "regex \<Rightarrow> string \<Rightarrow> bool" where
  "js_match r s = list_ex (\<lambda>t. rmatch r t \<noteq> []) (suffixes s)"

definition file_type_regex :: regex where
  "file_type_regex =
     Cat (Str ''.'') (Cat (Alt (Str ''csv'') (Alt (Str ''xlsx'') (Str ''xls''))) Eoi)"

section \<open>Data Loader\<close>

text \<open>
  The effect run once on mount (lines 18 to 36), up to its first \<^verbatim>\<open>await\<close>:
  \<^verbatim>\<open>setLoading(true)\<close> and the call \<^verbatim>\<open>api.get('/candidates/')\<close>.
\<close>

definition fetchCandidates_begin :: "world \<Rightarrow> world" where
  "fetchCandidates_begin w =
     w\<lparr>view := (view w)\<lparr>loading := True\<rparr>,
       requests := requests w @ [Get ''/candidates/'']\<rparr>"



text \<open>\<^verbatim>\<open>refreshCandidates\<close> (lines 38 to 46): the same call, the failure only logged.\<close>

definition refreshCandidates :: "json list response promise \<Rightarrow> world \<Rightarrow> world" where
  "refreshCandidates got w =
     (let w1 = w\<lparr>requests := requests w @ [Get ''/candidates/'']\<rparr>;
          caught = (\<lambda>err. w1\<lparr>console := console w1 @ [(''Error refreshing candidates:'', err)]\<rparr>)
      in case got of
           Rejected err \<Rightarrow> caught err
         | Resolved response \<Rightarrow>
             (case json response of
                Rejected err \<Rightarrow> caught err
              | Resolved data \<Rightarrow> w1\<lparr>view := (view w1)\<lparr>candidates := data\<rparr>\<rparr>))"

section \<open>Upload Coordinator\<close>

text \<open>Whether an \<^verbatim>\<open>async\<close> handler has returned or is suspended at an \<^verbatim>\<open>await\<close>.\<close>

datatype progress = Returned | Awaiting

definition upload_success_message :: "nat \<Rightarrow> nat \<Rightarrow> string" where
  "upload_success_message n m =
     ''Successfully added '' @ show_nat n @ '' candidates. '' @ show_nat m @ '' errors.''"

text \<open>
  \<^verbatim>\<open>handleFileUpload\<close> up to its first \<^verbatim>\<open>await\<close> (lines 48 to 72): the guard on the
  file, the four resets, the check of the file name, and the upload call.
\<close>

definition handleFileUpload_begin :: "event \<Rightarrow> world \<Rightarrow> world \<times> progress" where
  "handleFileUpload_begin ev w =
     (case files ev of
        [] \<Rightarrow> (w, Returned)
      | file # _ \<Rightarrow>
          (let v1 = (view w)\<lparr>uploadStatus := None, isUploading := True,
                              duplicateData := None, duplicateDecisions := Map.empty\<rparr>
           in if \<not> js_match file_type_regex (name file)
              then (w\<lparr>view := v1\<lparr>uploadStatus :=
                                    Some \<lparr>type = error_type,
                                          message = ''Please upload a CSV or Excel file''\<rparr>,
                                  isUploading := False\<rparr>\<rparr>,
                    Returned)
              else (w\<lparr>view := v1,
                      requests := requests w @ [UploadFile ''/candidates/upload'' file]\<rparr>,
                    Awaiting)))"

text \<open>\<^verbatim>\<open>result.duplicates && result.duplicates.length > 0\<close>\<close>

definition has_duplicates :: "result \<Rightarrow> bool" where
  "has_duplicates r = (case duplicates r of None \<Rightarrow> False | Some ds \<Rightarrow> 0 < length ds)"

text \<open>
  The \<^verbatim>\<open>try\<close> block after the upload call has settled (lines 72 to 96); \<open>Inl\<close> is the
  value thrown. Every \<^verbatim>\<open>throw\<close> comes before the first state update of the block.
\<close>

definition handleFileUpload_try ::
  "result response promise \<Rightarrow> json list response promise \<Rightarrow> world \<Rightarrow> js_error + world" where
  "handleFileUpload_try uploaded refreshed w =
     (case uploaded of
        Rejected err \<Rightarrow> Inl err
      | Resolved response \<Rightarrow>
          (if (case content_type response of
                 None \<Rightarrow> True
               | Some contentType \<Rightarrow>
                   contentType = [] \<or> \<not> js_includes contentType ''application/json'')
           then Inl (Error ''Server returned non-JSON response'')
           else
             (case json response of
                Rejected err \<Rightarrow> Inl err
              | Resolved result \<Rightarrow>
                  (if \<not> ok response
                   then Inl (Error (field_or_else (result.error result) ''Upload failed''))
                   else if has_duplicates result
                   then Inr (w\<lparr>view := (view w)\<lparr>duplicateData := duplicates result,
                                                showDuplicateModal := True\<rparr>\<rparr>)
                   else
                     (case array_length (success result) of
                        Inl err \<Rightarrow> Inl err
                      | Inr n \<Rightarrow>
                          (case array_length (errors result) of
                             Inl err \<Rightarrow> Inl err
                           | Inr m \<Rightarrow>
                               Inr (refreshCandidates refreshed
                                      (w\<lparr>view := (view w)\<lparr>uploadStatus :=
                                            Some \<lparr>type = success_type,
                                                  message = upload_success_message n m\<rparr>\<rparr>\<rparr>))))))))"

text \<open>The \<^verbatim>\<open>catch\<close> and \<^verbatim>\<open>finally\<close> blocks around it (lines 97 to 106).\<close>

definition handleFileUpload_settle ::
  "result response promise \<Rightarrow> json list response promise \<Rightarrow> world \<Rightarrow> world" where
  "handleFileUpload_settle uploaded refreshed w =
     (let w1 = (case handleFileUpload_try uploaded refreshed w of
                  Inr w' \<Rightarrow> w'
                | Inl err \<Rightarrow>
                    w\<lparr>view := (view w)\<lparr>uploadStatus :=
                          Some \<lparr>type = error_type,
                                message = or_else (err_message err)
                                            ''Failed to upload file. Please try again.''\<rparr>\<rparr>\<rparr>)
      in w1\<lparr>view := (view w1)\<lparr>isUploading := False\<rparr>, file_input_value := []\<rparr>)"

text \<open>
  The whole handler. The two promises are the answers of the network to the upload and
  to the refresh; each is looked at only if the handler issues that request.
\<close>

definition handleFileUpload ::
  "event \<Rightarrow> result response promise \<Rightarrow> json list response promise \<Rightarrow> world \<Rightarrow> world" where
  "handleFileUpload ev uploaded refreshed w =
     (case handleFileUpload_begin ev w of
        (w1, Returned) \<Rightarrow> w1
      | (w1, Awaiting) \<Rightarrow> handleFileUpload_settle uploaded refreshed w1)"

section \<open>Duplicate Resolver\<close>

text \<open>The array built at lines 114 to 121 by \<^verbatim>\<open>duplicateData.map((item, index) => ...)\<close>.\<close>

definition decisions_of :: "duplicate list \<Rightarrow> (nat \<rightharpoonup> decision) \<Rightarrow> resolution list" where
  "decisions_of dups chosen =
     map (\<lambda>(index, item).
            let decision = (case chosen index of
                              None \<Rightarrow> \<lparr>decision.action = skip, decision.existing_id = None\<rparr>
                            | Some d \<Rightarrow> d)
            in \<lparr>new = duplicate.new item,
                action = decision.action decision,
                existing_id = decision.existing_id decision\<rparr>)
         (enumerate 0 dups)"

definition resolve_success_message :: "nat \<Rightarrow> nat \<Rightarrow> string" where
  "resolve_success_message n m =
     ''Successfully processed '' @ show_nat n @ '' candidates. '' @ show_nat m @ '' errors.''"

text \<open>\<^verbatim>\<open>handleDuplicateResolution\<close> up to its first \<^verbatim>\<open>await\<close> (lines 109 to 123).\<close>

definition handleDuplicateResolution_begin :: "world \<Rightarrow> world \<times> progress" where
  "handleDuplicateResolution_begin w =
     (case duplicateData (view w) of
        None \<Rightarrow> (w, Returned)
      | Some dups \<Rightarrow>
          (w\<lparr>requests := requests w @
                [Post ''/candidates/resolve-duplicates''
                   (decisions_of dups (duplicateDecisions (view w)))]\<rparr>,
           Awaiting))"

text \<open>The rest of its \<^verbatim>\<open>try\<close> block (lines 123 to 139); \<open>Inl\<close> is the value thrown.\<close>

definition handleDuplicateResolution_try ::
  "result response promise \<Rightarrow> json list response promise \<Rightarrow> world \<Rightarrow> js_error + world" where
  "handleDuplicateResolution_try posted refreshed w =
     (case posted of
        Rejected err \<Rightarrow> Inl err
      | Resolved response \<Rightarrow>
          (case json response of
             Rejected err \<Rightarrow> Inl err
           | Resolved result \<Rightarrow>
               (if \<not> ok response
                then Inl (Error (field_or_else (result.error result)
                                   ''Failed to resolve duplicates''))
                else
                  (case array_length (success result) of
                     Inl err \<Rightarrow> Inl err
                   | Inr n \<Rightarrow>
                       (case array_length (errors result) of
                          Inl err \<Rightarrow> Inl err
                        | Inr m \<Rightarrow>
                            Inr (refreshCandidates refreshed
                                   (w\<lparr>view := (view w)\<lparr>uploadStatus :=
                                         Some \<lparr>type = success_type,
                                               message = resolve_success_message n m\<rparr>,
                                       showDuplicateModal := False,
                                       duplicateData := None,
                                       duplicateDecisions := Map.empty\<rparr>\<rparr>)))))))"

definition handleDuplicateResolution_settle ::
  "result response promise \<Rightarrow> json list response promise \<Rightarrow> world \<Rightarrow> world" where
  "handleDuplicateResolution_settle posted refreshed w =
     (case handleDuplicateResolution_try posted refreshed w of
        Inr w' \<Rightarrow> w'
      | Inl err \<Rightarrow>
          w\<lparr>view := (view w)\<lparr>uploadStatus :=
                Some \<lparr>type = error_type,
                      message = or_else (err_message err)
                                  ''Failed to resolve duplicates. Please try again.''\<rparr>\<rparr>\<rparr>)"

definition handleDuplicateResolution ::
  "result response promise \<Rightarrow> json list response promise \<Rightarrow> world \<Rightarrow> world" where
  "handleDuplicateResolution posted refreshed w =
     (case handleDuplicateResolution_begin w of
        (w1, Returned) \<Rightarrow> w1
      | (w1, Awaiting) \<Rightarrow> handleDuplicateResolution_settle posted refreshed w1)"

text \<open>
  The \<^verbatim>\<open>onClick\<close> of the Cancel button (lines 342 to 346); the close button of the
  dialog header (lines 222 to 226) runs the same three updates.
\<close>

definition cancelDuplicateModal :: "view_state \<Rightarrow> view_state" where
  "cancelDuplicateModal v =
     v\<lparr>showDuplicateModal := False, duplicateData := None, duplicateDecisions := Map.empty\<rparr>"

section \<open>What is rendered\<close>

text \<open>A control as the user meets it: its text and its \<^verbatim>\<open>disabled\<close> attribute.\<close>

record control =
  label :: string
  disabled :: bool

text \<open>
  The dialog (lines 216 to 360) is rendered when \<^verbatim>\<open>showDuplicateModal && duplicateData\<close>;
  it lists \<^verbatim>\<open>duplicateData\<close> in order. Its Cancel and Process buttons carry no
  \<^verbatim>\<open>disabled\<close> attribute.
\<close>

record dialog_view =
  rows :: "duplicate list"
  cancel_button :: control
  process_button :: control

definition dialog :: "view_state \<Rightarrow> dialog_view option" where
  "dialog v =
     (if showDuplicateModal v
      then (case duplicateData v of
              None \<Rightarrow> None
            | Some dups \<Rightarrow>
                Some \<lparr>rows = dups,
                      cancel_button = \<lparr>label = ''Cancel'', disabled = False\<rparr>,
                      process_button = \<lparr>label = ''Process Selected Actions'', disabled = False\<rparr>\<rparr>)
      else None)"

text \<open>The file input and its label (lines 184 to 199).\<close>

definition upload_control :: "view_state \<Rightarrow> control" where
  "upload_control v =
     \<lparr>label = (if isUploading v then ''Uploading...'' else ''Upload Candidates''),
      disabled = isUploading v\<rparr>"

record main_view =
  upload :: control
  banner :: "upload_status option"
  modal :: "dialog_view option"
  table :: "json list"

text \<open>
  The three returns of the component (lines 149 to 178): the spinner while loading, the
  error screen with its Retry button (which reloads the page) when \<^verbatim>\<open>error\<close> is
  truthy, and the roster otherwise.
\<close>

datatype screen =
    LoadingView
  | ErrorView string control
  | MainView main_view

definition render :: "view_state \<Rightarrow> screen" where
  "render v =
     (if loading v then LoadingView
      else (case view_state.error v of
              Some (c # cs) \<Rightarrow> ErrorView (c # cs) \<lparr>label = ''Retry'', disabled = False\<rparr>
            | _ \<Rightarrow>
                MainView \<lparr>upload = upload_control v, banner = uploadStatus v,
                          modal = dialog v, table = candidates v\<rparr>))"

section \<open>The accepted extensions as the specification words them\<close>

text \<open>
  The specification accepts a file name that ends in \<^verbatim>\<open>.csv\<close>, \<^verbatim>\<open>.xlsx\<close> or
  \<^verbatim>\<open>.xls\<close> in any letter case. This predicate follows those words, not the source;
  it is compared with the test of line 59 below.
\<close>

definition ascii_lower :: "char \<Rightarrow> char" where
  "ascii_lower c =
     (case map_of (zip ''ABCDEFGHIJKLMNOPQRSTUVWXYZ'' ''abcdefghijklmnopqrstuvwxyz'') c of
        None \<Rightarrow> c
      | Some l \<Rightarrow> l)"

definition spec_accepted_name :: "string \<Rightarrow> bool" where
  "spec_accepted_name n =
     (let l = map ascii_lower n
      in suffix ''.csv'' l \<or> suffix ''.xlsx'' l \<or> suffix ''.xls'' l)"

section \<open>Reading a number in a message\<close>

text \<open>
  The number that a piece of text denotes as a decimal numeral: digits only, at least
  one, and no leading zero except in \<^verbatim>\<open>0\<close> itself. It is defined on its own,
  without \<open>show_nat\<close>, and says which count a status message shows.
\<close>

definition digit_value :: "char \<Rightarrow> nat option" where
  "digit_value c = map_of (zip ''0123456789'' [0, 1, 2, 3, 4, 5, 6, 7, 8, 9]) c"

primrec digits_value :: "nat \<Rightarrow> string \<Rightarrow> nat option" where
  "digits_value acc [] = Some acc"
| "digits_value acc (c # cs) =
     (case digit_value c of None \<Rightarrow> None | Some d \<Rightarrow> digits_value (10 * acc + d) cs)"

definition decimal_numeral :: "string \<Rightarrow> nat option" where
  "decimal_numeral s =
     (if s = [] \<or> (1 < length s \<and> hd s = CHR ''0'') then None else digits_value 0 s)"

section \<open>Sample inputs\<close>

text \<open>
  Concrete values on which the theorems below are instantiated: two duplicate rows, the
  view once the roster has loaded, and the same view with the dialog open and a decision
  recorded for the second row only.
\<close>

definition dup_a :: duplicate where
  "dup_a = \<lparr>duplicate.new = JStr ''ann'', existing = [JNum 4]\<rparr>"

definition dup_b :: duplicate where
  "dup_b = \<lparr>duplicate.new = JStr ''bob'', existing = [JNum 7, JNum 9]\<rparr>"

definition ready_world :: world where
  "ready_world =
     \<lparr>view = initial_view\<lparr>loading := False\<rparr>, requests = [], console = [],
      file_input_value = ''roster.csv''\<rparr>"

definition dialog_world :: world where
  "dialog_world =
     ready_world\<lparr>view := (view ready_world)
        \<lparr>showDuplicateModal := True, duplicateData := Some [dup_a, dup_b],
         duplicateDecisions := [1 \<mapsto> \<lparr>decision.action = update, decision.existing_id = Some 9\<rparr>]\<rparr>\<rparr>"

text \<open>A call that fails in transit: \<^verbatim>\<open>fetch\<close> rejects.\<close>

definition offline :: "'a promise" where
  "offline = Rejected (Error ''Failed to fetch'')"

text \<open>Two files, and the change events that select them (or nothing).\<close>

definition roster_csv :: selected_file where
  "roster_csv = \<lparr>name = ''roster.csv'', content = ''Name,Email''\<rparr>"

definition roster_upper :: selected_file where
  "roster_upper = \<lparr>name = ''ROSTER.CSV'', content = ''Name,Email''\<rparr>"

definition notes_txt :: selected_file where
  "notes_txt = \<lparr>name = ''notes.txt'', content = ''hello''\<rparr>"

text \<open>Answers of the server: a clean import, an import with duplicates, an HTML page.\<close>

definition clean_import :: "result response promise" where
  "clean_import =
     Resolved \<lparr>ok = True, content_type = Some ''application/json'',
               json = Resolved \<lparr>success = Some [JStr ''ann'', JStr ''bob''], errors = Some [],
                                duplicates = None, result.error = None\<rparr>\<rparr>"

definition import_with_duplicates :: "result response promise" where
  "import_with_duplicates =
     Resolved \<lparr>ok = True, content_type = Some ''application/json; charset=utf-8'',
               json = Resolved \<lparr>success = Some [], errors = Some [],
                                duplicates = Some [dup_a, dup_b], result.error = None\<rparr>\<rparr>"

definition html_page :: "result response promise" where
  "html_page =
     Resolved \<lparr>ok = True, content_type = Some ''text/html'',
               json = Rejected (Error ''Unexpected token <'')\<rparr>"

definition refused :: "result response promise" where
  "refused =
     Resolved \<lparr>ok = False, content_type = Some ''application/json'',
               json = Resolved \<lparr>success = None, errors = None, duplicates = None,
                                result.error = Some ''Invalid decisions''\<rparr>\<rparr>"

definition roster_listing :: "json list response promise" where
  "roster_listing =
     Resolved \<lparr>ok = True, content_type = Some ''application/json'',
               json = Resolved [JStr ''ann'', JStr ''bob'']\<rparr>"

text \<open>
  A refusal whose body is an HTML page, and a call rejected with an error that carries
  no message.
\<close>

definition html_error_page :: "result response promise" where
  "html_error_page =
     Resolved \<lparr>ok = False, content_type = Some ''text/html'',
               json = Rejected (Error ''Unexpected token <'')\<rparr>"




section \<open>Facts about the operators\<close>

text \<open>\<^verbatim>\<open>includes\<close> holds exactly when the needle is a contiguous part of the text.\<close>

lemma js_includes_sublist: "js_includes hay needle = sublist needle hay"
  by (induction hay) (simp_all add: sublist_Cons_right)

lemma prefix_drop_Nil: "(prefix w u \<and> drop (length w) u = []) = (u = w)"
  by (auto simp: prefix_def)

lemma rmatch_Str_done: "([] \<in> set (rmatch (Str w) u)) = (u = w)"
  using prefix_drop_Nil [of w u] by auto

lemma rmatch_Alt_done:
  "([] \<in> set (rmatch (Alt r1 r2) u)) = ([] \<in> set (rmatch r1 u) \<or> [] \<in> set (rmatch r2 u))"
  by simp

lemma rmatch_Cat_Eoi: "(rmatch (Cat r Eoi) u \<noteq> []) = ([] \<in> set (rmatch r u))"
  by (induction "rmatch r u" arbitrary: u) (auto split: if_splits)

lemma rmatch_Str_step: "rmatch (Cat (Str [c]) r) (d # u) = (if c = d then rmatch r u else [])"
  by simp

text \<open>Started at a given position, the pattern matches only its three extensions.\<close>

lemma rmatch_file_type_regex:
  "(rmatch file_type_regex t \<noteq> []) = (t = ''.csv'' \<or> t = ''.xlsx'' \<or> t = ''.xls'')"
proof (cases t)
  case Nil
  then show ?thesis by (simp add: file_type_regex_def)
next
  case (Cons d u)
  show ?thesis
  proof (cases "d = CHR ''.''")
    case True
    have "rmatch file_type_regex (d # u) =
            rmatch (Cat (Alt (Str ''csv'') (Alt (Str ''xlsx'') (Str ''xls''))) Eoi) u"
      unfolding file_type_regex_def rmatch_Str_step using True by simp
    then have "(rmatch file_type_regex (d # u) \<noteq> []) =
            (u = ''csv'' \<or> u = ''xlsx'' \<or> u = ''xls'')"
      by (simp only: rmatch_Cat_Eoi rmatch_Alt_done rmatch_Str_done)
    then show ?thesis using Cons True by simp
  next
    case False
    have "rmatch file_type_regex (d # u) = []"
      unfolding file_type_regex_def rmatch_Str_step using False by simp
    then show ?thesis using Cons False by simp
  qed
qed

lemma list_ex_suffixes: "list_ex P (suffixes s) = (\<exists>t. suffix t s \<and> P t)"
  by (auto simp: list_ex_iff)

text \<open>So the test of line 59 accepts a name exactly when it ends in one of them, as written.\<close>

lemma js_match_file_type_regex:
  "js_match file_type_regex s =
     (suffix ''.csv'' s \<or> suffix ''.xlsx'' s \<or> suffix ''.xls'' s)"
  unfolding js_match_def list_ex_suffixes rmatch_file_type_regex by blast

text \<open>
  The digits written for a number denote that number, and they are the only decimal
  numeral that does.
\<close>

lemma digit_value_nth: "d < 10 \<Longrightarrow> digit_value (''0123456789'' ! d) = Some d"
proof -
  assume "d < 10"
  then consider "d = 0" | "d = 1" | "d = 2" | "d = 3" | "d = 4" | "d = 5" | "d = 6"
    | "d = 7" | "d = 8" | "d = 9"
    by atomize_elim arith
  then show ?thesis
    by cases (simp_all add: digit_value_def)
qed

lemma nth_digit_not_zero: "0 < d \<Longrightarrow> d < 10 \<Longrightarrow> ''0123456789'' ! d \<noteq> CHR ''0''"
proof -
  assume "0 < d" and "d < 10"
  then consider "d = 1" | "d = 2" | "d = 3" | "d = 4" | "d = 5" | "d = 6"
    | "d = 7" | "d = 8" | "d = 9"
    by atomize_elim arith
  then show ?thesis
    by cases simp_all
qed

lemma digits_value_snoc:
  "digits_value acc (xs @ [c]) =
     (case digits_value acc xs of
        None \<Rightarrow> None
      | Some v \<Rightarrow> (case digit_value c of None \<Rightarrow> None | Some d \<Rightarrow> Some (10 * v + d)))"
  by (induction xs arbitrary: acc) (simp_all split: option.split)

lemma digits_value_show_nat: "digits_value 0 (show_nat n) = Some n"
proof (induction n rule: show_nat.induct)
  case (1 n)
  show ?case
  proof (cases "n < 10")
    case True
    then show ?thesis
      by (subst show_nat.simps) (simp add: digit_value_nth)
  next
    case False
    have "n mod 10 < 10" by simp
    then have d: "digit_value (''0123456789'' ! (n mod 10)) = Some (n mod 10)"
      by (rule digit_value_nth)
    have "digits_value 0 (show_nat (n div 10)) = Some (n div 10)"
      using 1 False by simp
    then have "digits_value 0 (show_nat (n div 10) @ [''0123456789'' ! (n mod 10)]) = Some n"
      unfolding digits_value_snoc using d by simp
    then show ?thesis
      using False by (subst show_nat.simps) simp
  qed
qed

lemma show_nat_not_Nil: "show_nat n \<noteq> []"
  by (subst show_nat.simps) simp

lemma hd_show_nat: "0 < n \<Longrightarrow> hd (show_nat n) \<noteq> CHR ''0''"
proof (induction n rule: show_nat.induct)
  case (1 n)
  show ?case
  proof (cases "n < 10")
    case True
    then have "hd (show_nat n) = ''0123456789'' ! n"
      by (subst show_nat.simps) simp
    then show ?thesis
      using nth_digit_not_zero [OF "1.prems" True] by simp
  next
    case False
    then have pos: "0 < n div 10" by simp
    have "hd (show_nat n) = hd (show_nat (n div 10))"
      using False show_nat_not_Nil [of "n div 10"] by (subst show_nat.simps) simp
    then show ?thesis
      using "1.IH" [OF False pos] by simp
  qed
qed

lemma show_nat_zero: "show_nat 0 = ''0''"
  by (subst show_nat.simps) simp

lemma decimal_numeral_show_nat: "decimal_numeral (show_nat n) = Some n"
proof (cases "n = 0")
  case True
  then show ?thesis
    by (simp add: decimal_numeral_def show_nat_zero digit_value_def)
next
  case False
  then have "hd (show_nat n) \<noteq> CHR ''0''"
    by (simp add: hd_show_nat)
  then show ?thesis
    by (simp add: decimal_numeral_def show_nat_not_Nil digits_value_show_nat)
qed

lemma digit_value_Some: "digit_value c = Some d \<Longrightarrow> d < 10 \<and> c = ''0123456789'' ! d"
  by (auto simp: digit_value_def split: if_splits)

lemma digits_value_mono: "digits_value acc xs = Some v \<Longrightarrow> acc \<le> v"
proof (induction xs arbitrary: acc)
  case Nil
  then show ?case by simp
next
  case (Cons c cs)
  then obtain d where "digits_value (10 * acc + d) cs = Some v"
    by (auto split: option.splits)
  then have "10 * acc + d \<le> v"
    by (rule Cons.IH)
  then show ?case by simp
qed

lemma digits_value_pos:
  assumes "digits_value 0 xs = Some v" and "xs \<noteq> []" and "hd xs \<noteq> CHR ''0''"
  shows "0 < v"
proof -
  obtain c cs where xs: "xs = c # cs"
    using assms(2) by (cases xs) auto
  then obtain d where d: "digit_value c = Some d" and rest: "digits_value d cs = Some v"
    using assms(1) by (auto split: option.splits)
  have "c = ''0123456789'' ! d"
    using digit_value_Some [OF d] by simp
  then have "d \<noteq> 0"
    using assms(3) xs by (cases "d = 0") simp_all
  moreover have "d \<le> v"
    using rest by (rule digits_value_mono)
  ultimately show ?thesis by simp
qed

lemma canonical_digits_are_show_nat:
  "xs \<noteq> [] \<Longrightarrow> (1 < length xs \<longrightarrow> hd xs \<noteq> CHR ''0'') \<Longrightarrow>
     digits_value 0 xs = Some n \<Longrightarrow> xs = show_nat n"
proof (induction xs arbitrary: n rule: rev_induct)
  case Nil
  then show ?case by simp
next
  case (snoc c xs)
  from snoc.prems(3) obtain v d where v: "digits_value 0 xs = Some v"
    and d: "digit_value c = Some d" and n: "n = 10 * v + d"
    unfolding digits_value_snoc by (auto split: option.splits)
  have d10: "d < 10" and c: "c = ''0123456789'' ! d"
    using digit_value_Some [OF d] by simp_all
  show ?case
  proof (cases "xs = []")
    case True
    then have "n = d"
      using v n by simp
    then show ?thesis
      using True d10 c by (subst show_nat.simps) simp
  next
    case False
    then have lead: "hd xs \<noteq> CHR ''0''"
      using snoc.prems(2) by (cases xs) auto
    have "xs = show_nat v"
      using False lead v by (intro snoc.IH) simp_all
    moreover have "0 < v"
      using v False lead by (rule digits_value_pos)
    ultimately show ?thesis
      using n d10 c by (subst show_nat.simps) simp
  qed
qed

lemma decimal_numeral_iff: "(decimal_numeral s = Some n) = (s = show_nat n)"
proof
  assume "decimal_numeral s = Some n"
  then show "s = show_nat n"
    by (intro canonical_digits_are_show_nat) (auto simp: decimal_numeral_def split: if_splits)
next
  assume "s = show_nat n"
  then show "decimal_numeral s = Some n"
    by (simp add: decimal_numeral_show_nat)
qed

lemma length_decisions_of: "length (decisions_of dups chosen) = length dups"
  by (simp add: decisions_of_def)

lemma nth_decisions_of:
  "i < length dups \<Longrightarrow>
     decisions_of dups chosen ! i =
       (case chosen i of
          None \<Rightarrow> \<lparr>new = duplicate.new (dups ! i), action = skip, existing_id = None\<rparr>
        | Some d \<Rightarrow> \<lparr>new = duplicate.new (dups ! i), action = decision.action d,
                      existing_id = decision.existing_id d\<rparr>)"
  by (simp add: decisions_of_def nth_enumerate_eq split: option.split)

text \<open>
  A refresh issues exactly one request and changes nothing of the view except,
  possibly, the list of candidates.
\<close>

lemma requests_refreshCandidates:
  "requests (refreshCandidates got w) = requests w @ [Get ''/candidates/'']"
  by (simp add: refreshCandidates_def Let_def split: promise.split)

lemma view_refreshCandidates:
  "\<exists>shown. view (refreshCandidates got w) = (view w)\<lparr>candidates := shown\<rparr>"
proof (cases "\<exists>response data. got = Resolved response \<and> json response = Resolved data")
  case True
  then show ?thesis by (auto simp: refreshCandidates_def Let_def)
next
  case False
  then have "view (refreshCandidates got w) = view w"
    by (auto simp: refreshCandidates_def Let_def split: promise.split)
  then have "view (refreshCandidates got w) = (view w)\<lparr>candidates := candidates (view w)\<rparr>"
    by simp
  then show ?thesis by blast
qed

text \<open>
  Once the resolution request has gone out, the only request the handler can still
  issue is the refresh.
\<close>

lemma requests_handleDuplicateResolution_settle:
  "requests (handleDuplicateResolution_settle posted refreshed w) = requests w \<or>
   requests (handleDuplicateResolution_settle posted refreshed w) = requests w @ [Get ''/candidates/'']"
  by (simp add: handleDuplicateResolution_settle_def handleDuplicateResolution_try_def
      requests_refreshCandidates split: promise.split sum.split)

lemma requests_handleDuplicateResolution:
  assumes "duplicateData (view w) = Some dups"
  shows "\<exists>rest. requests (handleDuplicateResolution posted refreshed w) =
           requests w @ Post ''/candidates/resolve-duplicates''
                          (decisions_of dups (duplicateDecisions (view w))) # rest
         \<and> (rest = [] \<or> rest = [Get ''/candidates/''])"
  using assms
    requests_handleDuplicateResolution_settle [of posted refreshed
      "w\<lparr>requests := requests w @ [Post ''/candidates/resolve-duplicates''
                   (decisions_of dups (duplicateDecisions (view w)))]\<rparr>"]
  by (auto simp: handleDuplicateResolution_def handleDuplicateResolution_begin_def)

section \<open>Duplicate resolution: what is submitted\<close>

text \<open>
  Claim C1. Whenever duplicate rows are held (the array received from the upload
  response), and whatever decisions the user has or has not recorded, and however the
  network answers, \<^verbatim>\<open>handleDuplicateResolution\<close> posts one decisions array to
  \<^verbatim>\<open>/candidates/resolve-duplicates\<close>. It has the length of the duplicates array, and
  its entry at each index carries the \<^verbatim>\<open>new\<close> payload of the duplicate row at that
  index, so the order is the same. The only request that can follow is the refresh.
\<close>

theorem resolution_keeps_length_order_and_payload:
  assumes "duplicateData (view w) = Some dups"
  shows "\<exists>decisions rest.
           requests (handleDuplicateResolution posted refreshed w) =
             requests w @ Post ''/candidates/resolve-duplicates'' decisions # rest
         \<and> (rest = [] \<or> rest = [Get ''/candidates/''])
         \<and> length decisions = length dups
         \<and> (\<forall>i<length dups. new (decisions ! i) = duplicate.new (dups ! i))
         \<and> map new decisions = map duplicate.new dups"
proof -
  let ?ds = "decisions_of dups (duplicateDecisions (view w))"
  obtain rest where sent:
    "requests (handleDuplicateResolution posted refreshed w) =
       requests w @ Post ''/candidates/resolve-duplicates'' ?ds # rest"
    and rest: "rest = [] \<or> rest = [Get ''/candidates/'']"
    using requests_handleDuplicateResolution [OF assms] by blast
  have len: "length ?ds = length dups"
    by (rule length_decisions_of)
  have nth: "\<forall>i<length dups. new (?ds ! i) = duplicate.new (dups ! i)"
    by (simp add: nth_decisions_of split: option.split)
  have "map new ?ds = map duplicate.new dups"
    using len nth by (simp add: list_eq_iff_nth_eq)
  with sent rest len nth show ?thesis by (intro exI conjI)
qed

theorem resolution_keeps_length_order_and_payload_witness:
  "duplicateData (view dialog_world) = Some [dup_a, dup_b] \<and>
   (\<exists>decisions rest.
      requests (handleDuplicateResolution offline offline dialog_world) =
        requests dialog_world @ Post ''/candidates/resolve-duplicates'' decisions # rest
      \<and> length decisions = 2
      \<and> map new decisions = [JStr ''ann'', JStr ''bob''])"
proof -
  have h: "duplicateData (view dialog_world) = Some [dup_a, dup_b]"
    by (simp add: dialog_world_def)
  from resolution_keeps_length_order_and_payload [OF h, of offline offline]
  obtain decisions rest where
    sent: "requests (handleDuplicateResolution offline offline dialog_world) =
             requests dialog_world @ Post ''/candidates/resolve-duplicates'' decisions # rest"
    and len: "length decisions = length [dup_a, dup_b]"
    and payload: "map new decisions = map duplicate.new [dup_a, dup_b]"
    by (elim exE conjE)
  have "length decisions = 2"
    using len by simp
  moreover have "map new decisions = [JStr ''ann'', JStr ''bob'']"
    using payload by (simp add: dup_a_def dup_b_def)
  ultimately have "\<exists>decisions rest.
      requests (handleDuplicateResolution offline offline dialog_world) =
        requests dialog_world @ Post ''/candidates/resolve-duplicates'' decisions # rest
      \<and> length decisions = 2
      \<and> map new decisions = [JStr ''ann'', JStr ''bob'']"
    using sent by (intro exI conjI)
  with h show ?thesis by (rule conjI)
qed

text \<open>
  Claim C2. For a row index at which the user has recorded no decision, the entry
  submitted at that index has action \<^verbatim>\<open>skip\<close> and no \<^verbatim>\<open>existing_id\<close>.
\<close>

theorem undecided_row_is_submitted_as_skip:
  assumes "duplicateData (view w) = Some dups"
    and "i < length dups"
    and "duplicateDecisions (view w) i = None"
  shows "\<exists>decisions rest.
           requests (handleDuplicateResolution posted refreshed w) =
             requests w @ Post ''/candidates/resolve-duplicates'' decisions # rest
         \<and> (rest = [] \<or> rest = [Get ''/candidates/''])
         \<and> length decisions = length dups
         \<and> action (decisions ! i) = skip
         \<and> existing_id (decisions ! i) = None
         \<and> new (decisions ! i) = duplicate.new (dups ! i)"
proof -
  let ?ds = "decisions_of dups (duplicateDecisions (view w))"
  obtain rest where sent:
    "requests (handleDuplicateResolution posted refreshed w) =
       requests w @ Post ''/candidates/resolve-duplicates'' ?ds # rest"
    and rest: "rest = [] \<or> rest = [Get ''/candidates/'']"
    using requests_handleDuplicateResolution [OF assms(1)] by blast
  have row: "?ds ! i = \<lparr>new = duplicate.new (dups ! i), action = skip, existing_id = None\<rparr>"
    using assms(2,3) by (simp add: nth_decisions_of)
  have len: "length ?ds = length dups"
    by (rule length_decisions_of)
  have "action (?ds ! i) = skip" "existing_id (?ds ! i) = None"
    "new (?ds ! i) = duplicate.new (dups ! i)"
    by (simp_all add: row)
  with sent rest len show ?thesis by (intro exI conjI)
qed

theorem undecided_row_is_submitted_as_skip_witness:
  "duplicateData (view dialog_world) = Some [dup_a, dup_b] \<and>
   (0::nat) < length [dup_a, dup_b] \<and>
   duplicateDecisions (view dialog_world) 0 = None \<and>
   (\<exists>decisions rest.
      requests (handleDuplicateResolution offline offline dialog_world) =
        requests dialog_world @ Post ''/candidates/resolve-duplicates'' decisions # rest
      \<and> action (decisions ! 0) = skip
      \<and> existing_id (decisions ! 0) = None)"
proof -
  have h1: "duplicateData (view dialog_world) = Some [dup_a, dup_b]"
    by (simp add: dialog_world_def)
  have h2: "(0::nat) < length [dup_a, dup_b]"
    by simp
  have h3: "duplicateDecisions (view dialog_world) 0 = None"
    by (simp add: dialog_world_def)
  from undecided_row_is_submitted_as_skip [OF h1 h2 h3, of offline offline]
  obtain decisions rest where
    sent: "requests (handleDuplicateResolution offline offline dialog_world) =
             requests dialog_world @ Post ''/candidates/resolve-duplicates'' decisions # rest"
    and act: "action (decisions ! 0) = skip"
    and eid: "existing_id (decisions ! 0) = None"
    by (elim exE conjE)
  then have "\<exists>decisions rest.
      requests (handleDuplicateResolution offline offline dialog_world) =
        requests dialog_world @ Post ''/candidates/resolve-duplicates'' decisions # rest
      \<and> action (decisions ! 0) = skip
      \<and> existing_id (decisions ! 0) = None"
    by (intro exI conjI)
  with h1 h2 h3 show ?thesis by (intro conjI)
qed

section \<open>Upload: no file selected\<close>

text \<open>
  Claim C10. Invoked with an empty file list, \<^verbatim>\<open>handleFileUpload\<close> returns at
  once and changes nothing: the view state, the list of requests issued, the console and
  the value of the file input are all as before, so no validation message is shown and
  no network call is made.
\<close>

theorem no_file_selected_is_a_no_op:
  assumes "files ev = []"
  shows "handleFileUpload ev uploaded refreshed w = w"
  using assms by (simp add: handleFileUpload_def handleFileUpload_begin_def)

theorem no_file_selected_is_a_no_op_witness:
  "files \<lparr>files = []\<rparr> = [] \<and>
   handleFileUpload \<lparr>files = []\<rparr> offline offline dialog_world = dialog_world"
  using no_file_selected_is_a_no_op [of "\<lparr>files = []\<rparr>" offline offline dialog_world]
  by simp

section \<open>Upload: the check of the file name\<close>

text \<open>The two ways \<^verbatim>\<open>handleFileUpload\<close> goes on once a file is selected.\<close>

lemma handleFileUpload_rejected_name:
  assumes "files ev = f # fs" and "\<not> js_match file_type_regex (name f)"
  shows "handleFileUpload ev uploaded refreshed w =
           w\<lparr>view := (view w)\<lparr>uploadStatus :=
                    Some \<lparr>type = error_type, message = ''Please upload a CSV or Excel file''\<rparr>,
                  isUploading := False, duplicateData := None,
                  duplicateDecisions := Map.empty\<rparr>\<rparr>"
  using assms by (simp add: handleFileUpload_def handleFileUpload_begin_def)

lemma handleFileUpload_accepted_name:
  assumes "files ev = f # fs" and "js_match file_type_regex (name f)"
  shows "handleFileUpload ev uploaded refreshed w =
           handleFileUpload_settle uploaded refreshed
             (w\<lparr>view := (view w)\<lparr>uploadStatus := None, isUploading := True,
                      duplicateData := None, duplicateDecisions := Map.empty\<rparr>,
                requests := requests w @ [UploadFile ''/candidates/upload'' f]\<rparr>)"
  using assms by (simp add: handleFileUpload_def handleFileUpload_begin_def)

lemma requests_handleFileUpload_settle:
  "requests (handleFileUpload_settle uploaded refreshed w) = requests w \<or>
   requests (handleFileUpload_settle uploaded refreshed w) = requests w @ [Get ''/candidates/'']"
  by (simp add: handleFileUpload_settle_def handleFileUpload_try_def Let_def
      requests_refreshCandidates split: promise.split sum.split)

text \<open>
  Claim C3, as amended. For every selected file whose name ends in \<^verbatim>\<open>.csv\<close>,
  \<^verbatim>\<open>.xlsx\<close> or \<^verbatim>\<open>.xls\<close> written exactly so, in lower case,
  \<^verbatim>\<open>handleFileUpload\<close> issues the upload request; for a file with any other
  name, an upper-case or mixed-case extension included, it issues no request and shows
  the validation message.
\<close>

theorem extension_gate_matches_exact_lower_case:
  assumes "files ev = f # fs"
  shows "(suffix ''.csv'' (name f) \<or> suffix ''.xlsx'' (name f) \<or> suffix ''.xls'' (name f) \<longrightarrow>
            (\<exists>rest. requests (handleFileUpload ev uploaded refreshed w) =
                      requests w @ UploadFile ''/candidates/upload'' f # rest))
       \<and> (\<not> (suffix ''.csv'' (name f) \<or> suffix ''.xlsx'' (name f) \<or> suffix ''.xls'' (name f)) \<longrightarrow>
            requests (handleFileUpload ev uploaded refreshed w) = requests w
          \<and> uploadStatus (view (handleFileUpload ev uploaded refreshed w)) =
              Some \<lparr>type = error_type, message = ''Please upload a CSV or Excel file''\<rparr>)"
proof (cases "js_match file_type_regex (name f)")
  case True
  let ?w1 = "w\<lparr>view := (view w)\<lparr>uploadStatus := None, isUploading := True,
                      duplicateData := None, duplicateDecisions := Map.empty\<rparr>,
                requests := requests w @ [UploadFile ''/candidates/upload'' f]\<rparr>"
  have run: "handleFileUpload ev uploaded refreshed w = handleFileUpload_settle uploaded refreshed ?w1"
    using assms True by (rule handleFileUpload_accepted_name)
  have "\<exists>rest. requests (handleFileUpload_settle uploaded refreshed ?w1) =
                 requests w @ UploadFile ''/candidates/upload'' f # rest"
    using requests_handleFileUpload_settle [of uploaded refreshed ?w1] by auto
  then show ?thesis
    using True run by (simp add: js_match_file_type_regex)
next
  case False
  have "handleFileUpload ev uploaded refreshed w =
           w\<lparr>view := (view w)\<lparr>uploadStatus :=
                    Some \<lparr>type = error_type, message = ''Please upload a CSV or Excel file''\<rparr>,
                  isUploading := False, duplicateData := None,
                  duplicateDecisions := Map.empty\<rparr>\<rparr>"
    using assms False by (rule handleFileUpload_rejected_name)
  then show ?thesis
    using False by (simp add: js_match_file_type_regex)
qed

theorem extension_gate_matches_exact_lower_case_witness:
  "files \<lparr>files = [roster_csv]\<rparr> = [roster_csv] \<and>
   suffix ''.csv'' (name roster_csv) \<and>
   (\<exists>rest. requests (handleFileUpload \<lparr>files = [roster_csv]\<rparr> clean_import roster_listing ready_world) =
             requests ready_world @ UploadFile ''/candidates/upload'' roster_csv # rest) \<and>
   files \<lparr>files = [notes_txt]\<rparr> = [notes_txt] \<and>
   \<not> (suffix ''.csv'' (name notes_txt) \<or> suffix ''.xlsx'' (name notes_txt)
        \<or> suffix ''.xls'' (name notes_txt)) \<and>
   requests (handleFileUpload \<lparr>files = [notes_txt]\<rparr> clean_import roster_listing ready_world) =
     requests ready_world \<and>
   uploadStatus (view (handleFileUpload \<lparr>files = [notes_txt]\<rparr> clean_import roster_listing ready_world)) =
     Some \<lparr>type = error_type, message = ''Please upload a CSV or Excel file''\<rparr>"
proof -
  have f1: "files \<lparr>files = [roster_csv]\<rparr> = [roster_csv]"
    and f2: "files \<lparr>files = [notes_txt]\<rparr> = [notes_txt]"
    by simp_all
  have yes: "suffix ''.csv'' (name roster_csv)"
    by (simp add: roster_csv_def suffix_to_prefix)
  have no: "\<not> (suffix ''.csv'' (name notes_txt) \<or> suffix ''.xlsx'' (name notes_txt)
        \<or> suffix ''.xls'' (name notes_txt))"
    by (simp add: notes_txt_def suffix_to_prefix)
  show ?thesis
    using f1 f2 yes no
      extension_gate_matches_exact_lower_case [OF f1, of clean_import roster_listing ready_world]
      extension_gate_matches_exact_lower_case [OF f2, of clean_import roster_listing ready_world]
    by simp
qed

text \<open>
  Claim C3 as the specification states it fails: \<^verbatim>\<open>ROSTER.CSV\<close> ends in
  \<^verbatim>\<open>.csv\<close> up to letter case, yet the handler issues no request for it and shows
  the validation message, because the pattern of line 59 carries no \<^verbatim>\<open>i\<close> flag.
\<close>

theorem upper_case_extension_is_turned_away:
  "spec_accepted_name (name roster_upper) \<and>
   requests (handleFileUpload \<lparr>files = [roster_upper]\<rparr> clean_import roster_listing ready_world) = [] \<and>
   uploadStatus (view (handleFileUpload \<lparr>files = [roster_upper]\<rparr> clean_import roster_listing ready_world)) =
     Some \<lparr>type = error_type, message = ''Please upload a CSV or Excel file''\<rparr>"
proof -
  have "\<not> js_match file_type_regex (name roster_upper)"
    by (simp add: js_match_file_type_regex roster_upper_def suffix_to_prefix)
  then have "handleFileUpload \<lparr>files = [roster_upper]\<rparr> clean_import roster_listing ready_world =
      ready_world\<lparr>view := (view ready_world)\<lparr>uploadStatus :=
                    Some \<lparr>type = error_type, message = ''Please upload a CSV or Excel file''\<rparr>,
                  isUploading := False, duplicateData := None,
                  duplicateDecisions := Map.empty\<rparr>\<rparr>"
    by (intro handleFileUpload_rejected_name [where fs = "[]"]) simp_all
  moreover have "spec_accepted_name (name roster_upper)"
    by (simp add: spec_accepted_name_def ascii_lower_def roster_upper_def suffix_to_prefix)
  ultimately show ?thesis
    by (simp add: ready_world_def)
qed

section \<open>Upload: reading the response\<close>

lemma json_content_type:
  "sublist ''application/json'' ct \<Longrightarrow> ct \<noteq> [] \<and> js_includes ct ''application/json''"
  by (auto simp: js_includes_sublist)

lemma handleFileUpload_with_duplicates:
  assumes "files ev = f # fs" and "js_match file_type_regex (name f)"
    and "uploaded = Resolved response" and "content_type response = Some ct"
    and "sublist ''application/json'' ct" and "json response = Resolved result"
    and "ok response" and "duplicates result = Some ds" and "ds \<noteq> []"
  shows "handleFileUpload ev uploaded refreshed w =
           w\<lparr>view := (view w)\<lparr>uploadStatus := None, isUploading := False,
                    duplicateData := Some ds, duplicateDecisions := Map.empty,
                    showDuplicateModal := True\<rparr>,
              requests := requests w @ [UploadFile ''/candidates/upload'' f],
              file_input_value := []\<rparr>"
  using assms(3-9) json_content_type [OF assms(5)]
  unfolding handleFileUpload_accepted_name [OF assms(1,2)]
  by (simp add: handleFileUpload_settle_def handleFileUpload_try_def has_duplicates_def)

lemma refreshCandidates_keeps:
  "uploadStatus (view (refreshCandidates got w)) = uploadStatus (view w)"
  "isUploading (view (refreshCandidates got w)) = isUploading (view w)"
  "showDuplicateModal (view (refreshCandidates got w)) = showDuplicateModal (view w)"
  "duplicateData (view (refreshCandidates got w)) = duplicateData (view w)"
  "duplicateDecisions (view (refreshCandidates got w)) = duplicateDecisions (view w)"
  "view_state.error (view (refreshCandidates got w)) = view_state.error (view w)"
  "loading (view (refreshCandidates got w)) = loading (view w)"
  "file_input_value (refreshCandidates got w) = file_input_value w"
  by (simp_all add: refreshCandidates_def Let_def split: promise.split)

lemma handleFileUpload_without_duplicates:
  assumes "files ev = f # fs" and "js_match file_type_regex (name f)"
    and "uploaded = Resolved response" and "content_type response = Some ct"
    and "sublist ''application/json'' ct" and "json response = Resolved result"
    and "ok response" and "duplicates result = None \<or> duplicates result = Some []"
    and "success result = Some ss" and "errors result = Some es"
  shows "uploadStatus (view (handleFileUpload ev uploaded refreshed w)) =
           Some \<lparr>type = success_type,
                 message = upload_success_message (length ss) (length es)\<rparr>"
    and "requests (handleFileUpload ev uploaded refreshed w) =
           requests w @ [UploadFile ''/candidates/upload'' f, Get ''/candidates/'']"
    and "duplicateData (view (handleFileUpload ev uploaded refreshed w)) = None"
    and "duplicateDecisions (view (handleFileUpload ev uploaded refreshed w)) = Map.empty"
    and "isUploading (view (handleFileUpload ev uploaded refreshed w)) = False"
proof -
  have nodup: "\<not> has_duplicates result"
    using assms(8) by (auto simp: has_duplicates_def)
  let ?w1 = "w\<lparr>view := (view w)\<lparr>uploadStatus := None, isUploading := True,
                      duplicateData := None, duplicateDecisions := Map.empty\<rparr>,
                requests := requests w @ [UploadFile ''/candidates/upload'' f]\<rparr>"
  let ?w2 = "?w1\<lparr>view := (view ?w1)\<lparr>uploadStatus :=
                 Some \<lparr>type = success_type,
                       message = upload_success_message (length ss) (length es)\<rparr>\<rparr>\<rparr>"
  have tried: "handleFileUpload_try uploaded refreshed ?w1 = Inr (refreshCandidates refreshed ?w2)"
    using assms(3,4,6,7,9,10) json_content_type [OF assms(5)] nodup
    by (simp add: handleFileUpload_try_def array_length_def)
  have run: "handleFileUpload ev uploaded refreshed w =
      (refreshCandidates refreshed ?w2)
        \<lparr>view := (view (refreshCandidates refreshed ?w2))\<lparr>isUploading := False\<rparr>,
         file_input_value := []\<rparr>"
    unfolding handleFileUpload_accepted_name [OF assms(1,2)] handleFileUpload_settle_def tried
    by (simp add: Let_def)
  show "uploadStatus (view (handleFileUpload ev uploaded refreshed w)) =
           Some \<lparr>type = success_type,
                 message = upload_success_message (length ss) (length es)\<rparr>"
    unfolding run by (simp add: refreshCandidates_keeps)
  show "requests (handleFileUpload ev uploaded refreshed w) =
           requests w @ [UploadFile ''/candidates/upload'' f, Get ''/candidates/'']"
    unfolding run by (simp add: requests_refreshCandidates)
  show "duplicateData (view (handleFileUpload ev uploaded refreshed w)) = None"
    unfolding run by (simp add: refreshCandidates_keeps)
  show "duplicateDecisions (view (handleFileUpload ev uploaded refreshed w)) = Map.empty"
    unfolding run by (simp add: refreshCandidates_keeps)
  show "isUploading (view (handleFileUpload ev uploaded refreshed w)) = False"
    unfolding run by simp
qed

text \<open>
  Claim C4. Take a successful upload response: the file passed the name check, the call
  returned a response with a JSON content type, an ok status and a body that parses.
  If its \<^verbatim>\<open>duplicates\<close> array is non-empty, the dialog is rendered over exactly that
  array, in that order, and the only request issued is the upload: no refresh, and the
  list of candidates is untouched. If \<^verbatim>\<open>duplicates\<close> is absent or empty (and the
  body carries its \<^verbatim>\<open>success\<close> and \<^verbatim>\<open>errors\<close> arrays), the success status
  reads \<^verbatim>\<open>Successfully added N candidates. M errors.\<close> with \<^verbatim>\<open>N\<close> and
  \<^verbatim>\<open>M\<close> the decimal numerals of the lengths of the two arrays, exactly one
  refresh request follows the upload, and the dialog is not rendered.
\<close>

theorem successful_upload_opens_dialog_or_refreshes:
  fixes w :: world and refreshed :: "json list response promise"
  assumes "files ev = f # fs"
    and "suffix ''.csv'' (name f) \<or> suffix ''.xlsx'' (name f) \<or> suffix ''.xls'' (name f)"
    and "uploaded = Resolved response"
    and "content_type response = Some ct"
    and "sublist ''application/json'' ct"
    and "json response = Resolved result"
    and "ok response"
  defines "after \<equiv> handleFileUpload ev uploaded refreshed w"
  shows "(\<forall>ds. duplicates result = Some ds \<and> ds \<noteq> [] \<longrightarrow>
            map_option rows (dialog (view after)) = Some ds
          \<and> duplicateData (view after) = Some ds
          \<and> showDuplicateModal (view after)
          \<and> requests after = requests w @ [UploadFile ''/candidates/upload'' f]
          \<and> candidates (view after) = candidates (view w))
       \<and> (\<forall>ss es. (duplicates result = None \<or> duplicates result = Some [])
                  \<and> success result = Some ss \<and> errors result = Some es \<longrightarrow>
            (\<exists>added failed.
               uploadStatus (view after) =
                 Some \<lparr>type = success_type,
                       message = ''Successfully added '' @ added @ '' candidates. '' @ failed
                                 @ '' errors.''\<rparr>
               \<and> decimal_numeral added = Some (length ss)
               \<and> decimal_numeral failed = Some (length es))
          \<and> requests after =
              requests w @ [UploadFile ''/candidates/upload'' f, Get ''/candidates/'']
          \<and> dialog (view after) = None)"
proof (intro conjI allI impI)
  have named: "js_match file_type_regex (name f)"
    using assms(2) by (simp add: js_match_file_type_regex)
  {
    fix ds
    assume "duplicates result = Some ds \<and> ds \<noteq> []"
    then have run: "after =
           w\<lparr>view := (view w)\<lparr>uploadStatus := None, isUploading := False,
                    duplicateData := Some ds, duplicateDecisions := Map.empty,
                    showDuplicateModal := True\<rparr>,
              requests := requests w @ [UploadFile ''/candidates/upload'' f],
              file_input_value := []\<rparr>"
      unfolding after_def
      using handleFileUpload_with_duplicates [OF assms(1) named assms(3-7)] by blast
    show "map_option rows (dialog (view after)) = Some ds"
      unfolding run by (simp add: dialog_def)
    show "duplicateData (view after) = Some ds"
      unfolding run by simp
    show "showDuplicateModal (view after)"
      unfolding run by simp
    show "requests after = requests w @ [UploadFile ''/candidates/upload'' f]"
      unfolding run by simp
    show "candidates (view after) = candidates (view w)"
      unfolding run by simp
  }
  {
    fix ss es
    assume h: "(duplicates result = None \<or> duplicates result = Some [])
                  \<and> success result = Some ss \<and> errors result = Some es"
    then have d: "duplicates result = None \<or> duplicates result = Some []"
      and s: "success result = Some ss" and e: "errors result = Some es"
      by simp_all
    note facts = handleFileUpload_without_duplicates
      [OF assms(1) named assms(3-7) d s e, of refreshed w, folded after_def]
    have "uploadStatus (view after) =
              Some \<lparr>type = success_type,
                    message = ''Successfully added '' @ show_nat (length ss) @ '' candidates. ''
                              @ show_nat (length es) @ '' errors.''\<rparr>"
      using facts(1) by (simp add: upload_success_message_def)
    then show "\<exists>added failed.
               uploadStatus (view after) =
                 Some \<lparr>type = success_type,
                       message = ''Successfully added '' @ added @ '' candidates. '' @ failed
                                 @ '' errors.''\<rparr>
               \<and> decimal_numeral added = Some (length ss)
               \<and> decimal_numeral failed = Some (length es)"
      using decimal_numeral_show_nat [of "length ss"] decimal_numeral_show_nat [of "length es"]
      by (intro exI conjI)
    show "requests after =
              requests w @ [UploadFile ''/candidates/upload'' f, Get ''/candidates/'']"
      by (rule facts(2))
    show "dialog (view after) = None"
      using facts(3) by (simp add: dialog_def)
  }
qed

theorem successful_upload_opens_dialog_or_refreshes_witness:
  "files \<lparr>files = [roster_csv]\<rparr> = [roster_csv] \<and>
   suffix ''.csv'' (name roster_csv) \<and>
   sublist ''application/json'' ''application/json; charset=utf-8'' \<and>
   map_option rows
     (dialog (view (handleFileUpload \<lparr>files = [roster_csv]\<rparr> import_with_duplicates
                      roster_listing ready_world))) = Some [dup_a, dup_b] \<and>
   requests (handleFileUpload \<lparr>files = [roster_csv]\<rparr> import_with_duplicates
               roster_listing ready_world) =
     [UploadFile ''/candidates/upload'' roster_csv] \<and>
   uploadStatus (view (handleFileUpload \<lparr>files = [roster_csv]\<rparr> clean_import
                         roster_listing ready_world)) =
     Some \<lparr>type = success_type, message = ''Successfully added 2 candidates. 0 errors.''\<rparr> \<and>
   requests (handleFileUpload \<lparr>files = [roster_csv]\<rparr> clean_import roster_listing ready_world) =
     [UploadFile ''/candidates/upload'' roster_csv, Get ''/candidates/''] \<and>
   dialog (view (handleFileUpload \<lparr>files = [roster_csv]\<rparr> clean_import
                   roster_listing ready_world)) = None"
proof -
  have f: "files \<lparr>files = [roster_csv]\<rparr> = [roster_csv]"
    by simp
  have n: "suffix ''.csv'' (name roster_csv) \<or> suffix ''.xlsx'' (name roster_csv)
           \<or> suffix ''.xls'' (name roster_csv)"
    and n1: "suffix ''.csv'' (name roster_csv)"
    by (simp_all add: roster_csv_def suffix_to_prefix)
  have j1: "sublist ''application/json'' ''application/json; charset=utf-8''"
    and j2: "sublist ''application/json'' ''application/json''"
    by (simp_all add: js_includes_sublist [symmetric])
  have dup: "import_with_duplicates =
     Resolved \<lparr>ok = True, content_type = Some ''application/json; charset=utf-8'',
               json = Resolved \<lparr>success = Some [], errors = Some [],
                                duplicates = Some [dup_a, dup_b], result.error = None\<rparr>\<rparr>"
    by (simp add: import_with_duplicates_def)
  have clean: "clean_import =
     Resolved \<lparr>ok = True, content_type = Some ''application/json'',
               json = Resolved \<lparr>success = Some [JStr ''ann'', JStr ''bob''], errors = Some [],
                                duplicates = None, result.error = None\<rparr>\<rparr>"
    by (simp add: clean_import_def)
  have empty: "requests ready_world = []"
    by (simp add: ready_world_def)
  show ?thesis
    using f n1 j1 empty
      successful_upload_opens_dialog_or_refreshes [OF f n dup _ j1, of _ roster_listing ready_world]
      successful_upload_opens_dialog_or_refreshes [OF f n clean _ j2, of _ roster_listing ready_world]
    by (simp add: decimal_numeral_iff show_nat.simps)
qed


text \<open>
  Claim C5. When the upload call returns a response whose content-type header is
  missing or does not contain \<^verbatim>\<open>application/json\<close>, whatever its status and
  body, the handler shows the error \<^verbatim>\<open>Server returned non-JSON response\<close>; the
  dialog is not rendered and no refresh is requested.
\<close>

theorem non_json_response_is_a_failure:
  fixes w :: world and refreshed :: "json list response promise"
  assumes "files ev = f # fs"
    and "suffix ''.csv'' (name f) \<or> suffix ''.xlsx'' (name f) \<or> suffix ''.xls'' (name f)"
    and "uploaded = Resolved response"
    and "content_type response = None \<or>
         (\<exists>ct. content_type response = Some ct \<and> \<not> sublist ''application/json'' ct)"
  defines "after \<equiv> handleFileUpload ev uploaded refreshed w"
  shows "uploadStatus (view after) =
           Some \<lparr>type = error_type, message = ''Server returned non-JSON response''\<rparr>
       \<and> dialog (view after) = None
       \<and> duplicateData (view after) = None
       \<and> requests after = requests w @ [UploadFile ''/candidates/upload'' f]
       \<and> candidates (view after) = candidates (view w)"
proof -
  have named: "js_match file_type_regex (name f)"
    using assms(2) by (simp add: js_match_file_type_regex)
  let ?w1 = "w\<lparr>view := (view w)\<lparr>uploadStatus := None, isUploading := True,
                      duplicateData := None, duplicateDecisions := Map.empty\<rparr>,
                requests := requests w @ [UploadFile ''/candidates/upload'' f]\<rparr>"
  have thrown: "handleFileUpload_try uploaded refreshed ?w1 =
                  Inl (Error ''Server returned non-JSON response'')"
    using assms(3,4) by (auto simp: handleFileUpload_try_def js_includes_sublist)
  have run: "after =
      ?w1\<lparr>view := (view ?w1)\<lparr>uploadStatus :=
                Some \<lparr>type = error_type, message = ''Server returned non-JSON response''\<rparr>,
              isUploading := False\<rparr>,
          file_input_value := []\<rparr>"
    unfolding after_def handleFileUpload_accepted_name [OF assms(1) named]
      handleFileUpload_settle_def thrown
    by (simp add: or_else_def err_message_def)
  show ?thesis
    unfolding run by (simp add: dialog_def)
qed

theorem non_json_response_is_a_failure_witness:
  "files \<lparr>files = [roster_csv]\<rparr> = [roster_csv] \<and>
   suffix ''.csv'' (name roster_csv) \<and>
   \<not> sublist ''application/json'' ''text/html'' \<and>
   uploadStatus (view (handleFileUpload \<lparr>files = [roster_csv]\<rparr> html_page
                         roster_listing ready_world)) =
     Some \<lparr>type = error_type, message = ''Server returned non-JSON response''\<rparr> \<and>
   dialog (view (handleFileUpload \<lparr>files = [roster_csv]\<rparr> html_page
                   roster_listing ready_world)) = None \<and>
   requests (handleFileUpload \<lparr>files = [roster_csv]\<rparr> html_page roster_listing ready_world) =
     [UploadFile ''/candidates/upload'' roster_csv]"
proof -
  have f: "files \<lparr>files = [roster_csv]\<rparr> = [roster_csv]"
    by simp
  have n: "suffix ''.csv'' (name roster_csv) \<or> suffix ''.xlsx'' (name roster_csv)
           \<or> suffix ''.xls'' (name roster_csv)"
    and n1: "suffix ''.csv'' (name roster_csv)"
    by (simp_all add: roster_csv_def suffix_to_prefix)
  have j: "\<not> sublist ''application/json'' ''text/html''"
    by (simp add: js_includes_sublist [symmetric])
  have page: "html_page =
     Resolved \<lparr>ok = True, content_type = Some ''text/html'',
               json = Rejected (Error ''Unexpected token <'')\<rparr>"
    by (simp add: html_page_def)
  have ct: "content_type \<lparr>ok = True, content_type = Some ''text/html'',
               json = (Rejected (Error ''Unexpected token <'') :: result promise)\<rparr> = None \<or>
         (\<exists>ct. content_type \<lparr>ok = True, content_type = Some ''text/html'',
               json = (Rejected (Error ''Unexpected token <'') :: result promise)\<rparr> = Some ct
               \<and> \<not> sublist ''application/json'' ct)"
    using j by simp
  have empty: "requests ready_world = []"
    by (simp add: ready_world_def)
  show ?thesis
    using f n1 j empty
      non_json_response_is_a_failure [OF f n page ct, of roster_listing ready_world]
    by simp
qed

section \<open>Duplicate resolution: how it ends\<close>

lemma handleDuplicateResolution_started:
  assumes "duplicateData (view w) = Some dups"
  shows "handleDuplicateResolution posted refreshed w =
           handleDuplicateResolution_settle posted refreshed
             (w\<lparr>requests := requests w @
                   [Post ''/candidates/resolve-duplicates''
                      (decisions_of dups (duplicateDecisions (view w)))]\<rparr>)"
  using assms by (simp add: handleDuplicateResolution_def handleDuplicateResolution_begin_def)

lemma handleDuplicateResolution_settle_thrown:
  assumes "handleDuplicateResolution_try posted refreshed w = Inl (Error m)"
  shows "handleDuplicateResolution_settle posted refreshed w =
           w\<lparr>view := (view w)\<lparr>uploadStatus :=
                Some \<lparr>type = error_type,
                      message = (if m = [] then ''Failed to resolve duplicates. Please try again.''
                                 else m)\<rparr>\<rparr>\<rparr>"
  using assms by (simp add: handleDuplicateResolution_settle_def or_else_def err_message_def)

lemma field_or_else_cases:
  "field_or_else f b = (case f of Some (c # cs) \<Rightarrow> c # cs | _ \<Rightarrow> b)"
  by (simp add: field_or_else_def or_else_def split: option.split list.split)

text \<open>
  Claim C6, as amended. Let \<^verbatim>\<open>handleDuplicateResolution\<close> run while duplicate rows
  are held. On a successful response (ok status, a body that parses and carries its
  \<^verbatim>\<open>success\<close> and \<^verbatim>\<open>errors\<close> arrays) it shows
  \<^verbatim>\<open>Successfully processed N candidates. M errors.\<close> with \<^verbatim>\<open>N\<close> and \<^verbatim>\<open>M\<close>
  the decimal numerals of the lengths of the two arrays, closes the dialog, clears the
  duplicate data and every decision, and requests one refresh. On a failure it changes
  nothing of the view but the status, so the dialog, the duplicate data and the
  decisions stay as they were, and it requests no refresh. The message shown is then:
  when the call is rejected or the body does not parse, whatever the status, the
  message of the error thrown, or \<^verbatim>\<open>Failed to resolve duplicates. Please try again.\<close>
  if that message is empty; when the body parses and the status is not ok, the server's
  \<^verbatim>\<open>error\<close> string if the body has a non-empty one, and
  \<^verbatim>\<open>Failed to resolve duplicates\<close> otherwise.
\<close>

theorem resolution_success_closes_failure_keeps_dialog:
  fixes w :: world and refreshed :: "json list response promise"
    and posted :: "result response promise"
  assumes "duplicateData (view w) = Some dups"
  defines "after \<equiv> handleDuplicateResolution posted refreshed w"
    and "sent \<equiv> Post ''/candidates/resolve-duplicates''
                   (decisions_of dups (duplicateDecisions (view w)))"
  shows "(\<forall>response result ss es.
            posted = Resolved response \<and> json response = Resolved result \<and> ok response
            \<and> success result = Some ss \<and> errors result = Some es \<longrightarrow>
              (\<exists>processed failed.
                 uploadStatus (view after) =
                   Some \<lparr>type = success_type,
                         message = ''Successfully processed '' @ processed @ '' candidates. ''
                                   @ failed @ '' errors.''\<rparr>
                 \<and> decimal_numeral processed = Some (length ss)
                 \<and> decimal_numeral failed = Some (length es))
            \<and> showDuplicateModal (view after) = False
            \<and> duplicateData (view after) = None
            \<and> duplicateDecisions (view after) = Map.empty
            \<and> dialog (view after) = None
            \<and> requests after = requests w @ [sent, Get ''/candidates/''])
       \<and> (\<forall>m. posted = Rejected (Error m)
                \<or> (\<exists>response. posted = Resolved response \<and> json response = Rejected (Error m)) \<longrightarrow>
              view after =
                (view w)\<lparr>uploadStatus :=
                   Some \<lparr>type = error_type,
                         message = (if m = []
                                    then ''Failed to resolve duplicates. Please try again.''
                                    else m)\<rparr>\<rparr>
            \<and> dialog (view after) = dialog (view w)
            \<and> requests after = requests w @ [sent])
       \<and> (\<forall>response result.
            posted = Resolved response \<and> json response = Resolved result \<and> \<not> ok response \<longrightarrow>
              view after =
                (view w)\<lparr>uploadStatus :=
                   Some \<lparr>type = error_type,
                         message = (case result.error result of
                                      Some (c # cs) \<Rightarrow> c # cs
                                    | _ \<Rightarrow> ''Failed to resolve duplicates'')\<rparr>\<rparr>
            \<and> dialog (view after) = dialog (view w)
            \<and> requests after = requests w @ [sent])"
proof (intro conjI allI impI)
  let ?w1 = "w\<lparr>requests := requests w @ [sent]\<rparr>"
  have run: "after = handleDuplicateResolution_settle posted refreshed ?w1"
    unfolding after_def sent_def by (rule handleDuplicateResolution_started [OF assms(1)])
  {
    fix response result ss es
    assume h: "posted = Resolved response \<and> json response = Resolved result \<and> ok response
            \<and> success result = Some ss \<and> errors result = Some es"
    let ?w2 = "?w1\<lparr>view := (view ?w1)\<lparr>uploadStatus :=
                         Some \<lparr>type = success_type,
                               message = resolve_success_message (length ss) (length es)\<rparr>,
                       showDuplicateModal := False,
                       duplicateData := None,
                       duplicateDecisions := Map.empty\<rparr>\<rparr>"
    have "handleDuplicateResolution_try posted refreshed ?w1 =
            Inr (refreshCandidates refreshed ?w2)"
      using h by (simp add: handleDuplicateResolution_try_def array_length_def)
    then have fin: "after = refreshCandidates refreshed ?w2"
      unfolding run by (simp add: handleDuplicateResolution_settle_def)
    have "uploadStatus (view after) =
                Some \<lparr>type = success_type,
                      message = ''Successfully processed '' @ show_nat (length ss)
                                @ '' candidates. '' @ show_nat (length es) @ '' errors.''\<rparr>"
      unfolding fin by (simp add: refreshCandidates_keeps resolve_success_message_def)
    then show "\<exists>processed failed.
                 uploadStatus (view after) =
                   Some \<lparr>type = success_type,
                         message = ''Successfully processed '' @ processed @ '' candidates. ''
                                   @ failed @ '' errors.''\<rparr>
                 \<and> decimal_numeral processed = Some (length ss)
                 \<and> decimal_numeral failed = Some (length es)"
      using decimal_numeral_show_nat [of "length ss"] decimal_numeral_show_nat [of "length es"]
      by (intro exI conjI)
    show "showDuplicateModal (view after) = False"
      unfolding fin by (simp add: refreshCandidates_keeps)
    show none: "duplicateData (view after) = None"
      unfolding fin by (simp add: refreshCandidates_keeps)
    show "duplicateDecisions (view after) = Map.empty"
      unfolding fin by (simp add: refreshCandidates_keeps)
    show "dialog (view after) = None"
      using none by (simp add: dialog_def)
    show "requests after = requests w @ [sent, Get ''/candidates/'']"
      unfolding fin by (simp add: requests_refreshCandidates)
  }
  {
    fix m
    assume h: "posted = Rejected (Error m)
                \<or> (\<exists>response. posted = Resolved response \<and> json response = Rejected (Error m))"
    then have "handleDuplicateResolution_try posted refreshed ?w1 = Inl (Error m)"
      by (auto simp: handleDuplicateResolution_try_def)
    then have fin: "after =
        ?w1\<lparr>view := (view ?w1)\<lparr>uploadStatus :=
                Some \<lparr>type = error_type,
                      message = (if m = [] then ''Failed to resolve duplicates. Please try again.''
                                 else m)\<rparr>\<rparr>\<rparr>"
      unfolding run by (rule handleDuplicateResolution_settle_thrown)
    show "view after =
                (view w)\<lparr>uploadStatus :=
                   Some \<lparr>type = error_type,
                         message = (if m = []
                                    then ''Failed to resolve duplicates. Please try again.''
                                    else m)\<rparr>\<rparr>"
      unfolding fin by simp
    show "dialog (view after) = dialog (view w)"
      unfolding fin by (simp add: dialog_def)
    show "requests after = requests w @ [sent]"
      unfolding fin by simp
  }
  {
    fix response result
    assume h: "posted = Resolved response \<and> json response = Resolved result \<and> \<not> ok response"
    let ?m = "case result.error result of
                Some (c # cs) \<Rightarrow> c # cs
              | _ \<Rightarrow> ''Failed to resolve duplicates''"
    have ne: "?m \<noteq> []"
      by (simp split: option.split list.split)
    have "handleDuplicateResolution_try posted refreshed ?w1 = Inl (Error ?m)"
      using h by (simp add: handleDuplicateResolution_try_def field_or_else_cases)
    then have "after =
        ?w1\<lparr>view := (view ?w1)\<lparr>uploadStatus :=
                Some \<lparr>type = error_type,
                      message = (if ?m = [] then ''Failed to resolve duplicates. Please try again.''
                                 else ?m)\<rparr>\<rparr>\<rparr>"
      unfolding run by (rule handleDuplicateResolution_settle_thrown)
    then have fin: "after =
        ?w1\<lparr>view := (view ?w1)\<lparr>uploadStatus := Some \<lparr>type = error_type, message = ?m\<rparr>\<rparr>\<rparr>"
      using ne by simp
    show "view after =
                (view w)\<lparr>uploadStatus :=
                   Some \<lparr>type = error_type,
                         message = (case result.error result of
                                      Some (c # cs) \<Rightarrow> c # cs
                                    | _ \<Rightarrow> ''Failed to resolve duplicates'')\<rparr>\<rparr>"
      unfolding fin by simp
    show "dialog (view after) = dialog (view w)"
      unfolding fin by (simp add: dialog_def)
    show "requests after = requests w @ [sent]"
      unfolding fin by simp
  }
qed

theorem resolution_success_closes_failure_keeps_dialog_witness:
  "duplicateData (view dialog_world) = Some [dup_a, dup_b] \<and>
   map_option rows (dialog (view dialog_world)) = Some [dup_a, dup_b] \<and>
   uploadStatus (view (handleDuplicateResolution clean_import roster_listing dialog_world)) =
     Some \<lparr>type = success_type, message = ''Successfully processed 2 candidates. 0 errors.''\<rparr> \<and>
   dialog (view (handleDuplicateResolution clean_import roster_listing dialog_world)) = None \<and>
   duplicateDecisions (view (handleDuplicateResolution clean_import roster_listing dialog_world)) =
     Map.empty \<and>
   requests (handleDuplicateResolution clean_import roster_listing dialog_world) =
     [Post ''/candidates/resolve-duplicates''
        (decisions_of [dup_a, dup_b] (duplicateDecisions (view dialog_world))),
      Get ''/candidates/''] \<and>
   uploadStatus (view (handleDuplicateResolution offline roster_listing dialog_world)) =
     Some \<lparr>type = error_type, message = ''Failed to fetch''\<rparr> \<and>
   dialog (view (handleDuplicateResolution offline roster_listing dialog_world)) =
     dialog (view dialog_world) \<and>
   uploadStatus (view (handleDuplicateResolution refused roster_listing dialog_world)) =
     Some \<lparr>type = error_type, message = ''Invalid decisions''\<rparr> \<and>
   dialog (view (handleDuplicateResolution refused roster_listing dialog_world)) =
     dialog (view dialog_world)"
proof -
  have h: "duplicateData (view dialog_world) = Some [dup_a, dup_b]"
    by (simp add: dialog_world_def)
  have open_before: "map_option rows (dialog (view dialog_world)) = Some [dup_a, dup_b]"
    by (simp add: dialog_world_def dialog_def)
  have empty: "requests dialog_world = []"
    by (simp add: dialog_world_def ready_world_def)
  note inst = resolution_success_closes_failure_keeps_dialog [OF h]
  have ok: "uploadStatus (view (handleDuplicateResolution clean_import roster_listing dialog_world)) =
     Some \<lparr>type = success_type, message = ''Successfully processed 2 candidates. 0 errors.''\<rparr> \<and>
   dialog (view (handleDuplicateResolution clean_import roster_listing dialog_world)) = None \<and>
   duplicateDecisions (view (handleDuplicateResolution clean_import roster_listing dialog_world)) =
     Map.empty \<and>
   requests (handleDuplicateResolution clean_import roster_listing dialog_world) =
     [Post ''/candidates/resolve-duplicates''
        (decisions_of [dup_a, dup_b] (duplicateDecisions (view dialog_world))),
      Get ''/candidates/'']"
    using inst [of clean_import roster_listing, THEN conjunct1] empty
    by (simp add: clean_import_def decimal_numeral_iff show_nat.simps)
  have net: "uploadStatus (view (handleDuplicateResolution offline roster_listing dialog_world)) =
     Some \<lparr>type = error_type, message = ''Failed to fetch''\<rparr> \<and>
   dialog (view (handleDuplicateResolution offline roster_listing dialog_world)) =
     dialog (view dialog_world)"
    using inst [of offline roster_listing, THEN conjunct2, THEN conjunct1]
    by (simp add: offline_def dialog_def)
  have no: "uploadStatus (view (handleDuplicateResolution refused roster_listing dialog_world)) =
     Some \<lparr>type = error_type, message = ''Invalid decisions''\<rparr> \<and>
   dialog (view (handleDuplicateResolution refused roster_listing dialog_world)) =
     dialog (view dialog_world)"
    using inst [of refused roster_listing, THEN conjunct2, THEN conjunct2]
    by (simp add: refused_def dialog_def)
  show ?thesis
    using h open_before ok net no by simp
qed

text \<open>
  Claim C6 as the specification states it fails for a refusal whose body does not
  parse: the handler calls \<^verbatim>\<open>response.json()\<close> before it looks at the status and
  tests no content type, so for an HTML error page the status shows the parser's
  message, which is neither a string sent by the server in \<^verbatim>\<open>error\<close> nor one of
  the two fallbacks.
\<close>

theorem unparsed_refusal_shows_the_parser_message:
  "html_error_page =
     Resolved \<lparr>ok = False, content_type = Some ''text/html'',
               json = Rejected (Error ''Unexpected token <'')\<rparr> \<and>
   uploadStatus (view (handleDuplicateResolution html_error_page roster_listing dialog_world)) =
     Some \<lparr>type = error_type, message = ''Unexpected token <''\<rparr> \<and>
   ''Unexpected token <'' \<noteq> ''Failed to resolve duplicates'' \<and>
   ''Unexpected token <'' \<noteq> ''Failed to resolve duplicates. Please try again.''"
  by (simp add: html_error_page_def handleDuplicateResolution_def
      handleDuplicateResolution_begin_def handleDuplicateResolution_settle_def
      handleDuplicateResolution_try_def dialog_world_def or_else_def err_message_def)

section \<open>Controls while a request is outstanding\<close>

text \<open>
  The upload: while the request is outstanding the file input is disabled and its label
  reads \<^verbatim>\<open>Uploading...\<close>; once the handler has settled it is enabled again. The
  load: while the first request is outstanding only the spinner is rendered.
\<close>

lemma upload_control_while_uploading:
  assumes "files ev = f # fs" and "js_match file_type_regex (name f)"
  shows "snd (handleFileUpload_begin ev w) = Awaiting"
    and "upload_control (view (fst (handleFileUpload_begin ev w))) =
           \<lparr>label = ''Uploading...'', disabled = True\<rparr>"
  using assms by (simp_all add: handleFileUpload_begin_def upload_control_def)

lemma upload_control_after_upload:
  assumes "files ev = f # fs"
  shows "isUploading (view (handleFileUpload ev uploaded refreshed w)) = False"
proof (cases "js_match file_type_regex (name f)")
  case True
  show ?thesis
    unfolding handleFileUpload_accepted_name [OF assms True]
    by (simp add: handleFileUpload_settle_def Let_def)
next
  case False
  show ?thesis
    unfolding handleFileUpload_rejected_name [OF assms False] by simp
qed

lemma spinner_while_loading: "render (view (fetchCandidates_begin w)) = LoadingView"
  by (simp add: fetchCandidates_begin_def render_def)

text \<open>
  Claim C7 fails for the resolve operation. With the dialog open on two duplicate rows,
  a click on the Process button posts the decisions and suspends; the view state is
  untouched, so the dialog is still rendered and its Process button is still enabled
  under the same label; a second click before the first response posts the same
  decisions again.
\<close>

theorem process_button_accepts_a_second_click:
  "snd (handleDuplicateResolution_begin dialog_world) = Awaiting \<and>
   render (view (fst (handleDuplicateResolution_begin dialog_world))) =
     MainView \<lparr>upload = \<lparr>label = ''Upload Candidates'', disabled = False\<rparr>,
               banner = None,
               modal = Some \<lparr>rows = [dup_a, dup_b],
                             cancel_button = \<lparr>label = ''Cancel'', disabled = False\<rparr>,
                             process_button = \<lparr>label = ''Process Selected Actions'',
                                               disabled = False\<rparr>\<rparr>,
               table = []\<rparr> \<and>
   requests (fst (handleDuplicateResolution_begin
                    (fst (handleDuplicateResolution_begin dialog_world)))) =
     [Post ''/candidates/resolve-duplicates''
        [\<lparr>new = JStr ''ann'', action = skip, existing_id = None\<rparr>,
         \<lparr>new = JStr ''bob'', action = update, existing_id = Some 9\<rparr>],
      Post ''/candidates/resolve-duplicates''
        [\<lparr>new = JStr ''ann'', action = skip, existing_id = None\<rparr>,
         \<lparr>new = JStr ''bob'', action = update, existing_id = Some 9\<rparr>]]"
  by (simp add: handleDuplicateResolution_begin_def dialog_world_def ready_world_def
      initial_view_def render_def dialog_def upload_control_def decisions_of_def
      dup_a_def dup_b_def enumerate_eq_zip upt_rec)

section \<open>Data Loader: failures\<close>




section \<open>Clearing the duplicate state\<close>

lemma duplicateData_handleFileUpload_settle:
  assumes "duplicateData (view w) = None"
  shows "duplicateData (view (handleFileUpload_settle uploaded refreshed w)) = None \<or>
         (\<exists>response result. uploaded = Resolved response \<and> json response = Resolved result
            \<and> duplicateData (view (handleFileUpload_settle uploaded refreshed w)) =
                duplicates result)"
  using assms
  by (auto simp: handleFileUpload_settle_def handleFileUpload_try_def Let_def
      refreshCandidates_keeps split: promise.split sum.split)

lemma duplicateDecisions_handleFileUpload_settle:
  "duplicateDecisions (view (handleFileUpload_settle uploaded refreshed w)) =
     duplicateDecisions (view w)"
  by (auto simp: handleFileUpload_settle_def handleFileUpload_try_def Let_def
      refreshCandidates_keeps split: promise.split sum.split)

text \<open>
  Claim C9, as amended. The Cancel button closes the dialog, nulls the duplicate data
  and empties the decisions. An invocation of \<^verbatim>\<open>handleFileUpload\<close> with a file
  selected has reset the duplicate data and the decisions by the time it rejects the
  file name or issues the upload request; when it has run to its end the decisions are
  still empty and the duplicate data is either null or the array of the new response.
\<close>

theorem cancel_and_upload_of_a_file_clear_duplicate_state:
  "showDuplicateModal (cancelDuplicateModal v) = False
   \<and> duplicateData (cancelDuplicateModal v) = None
   \<and> duplicateDecisions (cancelDuplicateModal v) = Map.empty
   \<and> dialog (cancelDuplicateModal v) = None
   \<and> (\<forall>f fs. files ev = f # fs \<longrightarrow>
          duplicateData (view (fst (handleFileUpload_begin ev w))) = None
        \<and> duplicateDecisions (view (fst (handleFileUpload_begin ev w))) = Map.empty
        \<and> dialog (view (fst (handleFileUpload_begin ev w))) = None
        \<and> duplicateDecisions (view (handleFileUpload ev uploaded refreshed w)) = Map.empty
        \<and> (duplicateData (view (handleFileUpload ev uploaded refreshed w)) = None \<or>
            (\<exists>response result.
               uploaded = Resolved response \<and> json response = Resolved result
               \<and> duplicateData (view (handleFileUpload ev uploaded refreshed w)) =
                   duplicates result)))"
proof (intro conjI allI impI)
  show "showDuplicateModal (cancelDuplicateModal v) = False"
    and "duplicateData (cancelDuplicateModal v) = None"
    and "duplicateDecisions (cancelDuplicateModal v) = Map.empty"
    and "dialog (cancelDuplicateModal v) = None"
    by (simp_all add: cancelDuplicateModal_def dialog_def)
next
  fix f fs
  assume sel: "files ev = f # fs"
  show none: "duplicateData (view (fst (handleFileUpload_begin ev w))) = None"
    using sel by (simp add: handleFileUpload_begin_def Let_def)
  show "duplicateDecisions (view (fst (handleFileUpload_begin ev w))) = Map.empty"
    using sel by (simp add: handleFileUpload_begin_def Let_def)
  show "dialog (view (fst (handleFileUpload_begin ev w))) = None"
    using none by (simp add: dialog_def)
  show "duplicateDecisions (view (handleFileUpload ev uploaded refreshed w)) = Map.empty"
  proof (cases "js_match file_type_regex (name f)")
    case True
    show ?thesis
      unfolding handleFileUpload_accepted_name [OF sel True]
        duplicateDecisions_handleFileUpload_settle
      by simp
  next
    case False
    show ?thesis
      unfolding handleFileUpload_rejected_name [OF sel False] by simp
  qed
  show "duplicateData (view (handleFileUpload ev uploaded refreshed w)) = None \<or>
            (\<exists>response result.
               uploaded = Resolved response \<and> json response = Resolved result
               \<and> duplicateData (view (handleFileUpload ev uploaded refreshed w)) =
                   duplicates result)"
  proof (cases "js_match file_type_regex (name f)")
    case True
    show ?thesis
      unfolding handleFileUpload_accepted_name [OF sel True]
      by (rule duplicateData_handleFileUpload_settle) simp
  next
    case False
    show ?thesis
      unfolding handleFileUpload_rejected_name [OF sel False] by simp
  qed
qed

theorem cancel_and_upload_of_a_file_clear_duplicate_state_witness:
  "files \<lparr>files = [roster_csv]\<rparr> = [roster_csv] \<and>
   duplicateData (view dialog_world) = Some [dup_a, dup_b] \<and>
   dialog (cancelDuplicateModal (view dialog_world)) = None \<and>
   duplicateData (cancelDuplicateModal (view dialog_world)) = None \<and>
   duplicateDecisions (cancelDuplicateModal (view dialog_world)) = Map.empty \<and>
   duplicateData (view (fst (handleFileUpload_begin \<lparr>files = [roster_csv]\<rparr> dialog_world))) = None \<and>
   duplicateDecisions (view (fst (handleFileUpload_begin \<lparr>files = [roster_csv]\<rparr> dialog_world))) =
     Map.empty \<and>
   duplicateDecisions
     (view (handleFileUpload \<lparr>files = [roster_csv]\<rparr> clean_import roster_listing dialog_world)) =
     Map.empty"
proof -
  have before: "duplicateData (view dialog_world) = Some [dup_a, dup_b]"
    by (simp add: dialog_world_def)
  show ?thesis
    using before
      cancel_and_upload_of_a_file_clear_duplicate_state
        [of "view dialog_world" "\<lparr>files = [roster_csv]\<rparr>" dialog_world clean_import roster_listing]
    by simp
qed

text \<open>
  Claim C9 as the specification states it fails for an invocation with no file
  selected: the guard of line 50 returns before the resets of lines 55 and 56, so the
  duplicate data and the decisions held before are still there afterwards.
\<close>

theorem upload_without_a_file_keeps_duplicate_state:
  "duplicateData
     (view (handleFileUpload \<lparr>files = []\<rparr> clean_import roster_listing dialog_world)) =
     Some [dup_a, dup_b] \<and>
   duplicateDecisions
     (view (handleFileUpload \<lparr>files = []\<rparr> clean_import roster_listing dialog_world)) 1 =
     Some \<lparr>decision.action = update, decision.existing_id = Some 9\<rparr>"
  by (simp add: handleFileUpload_def handleFileUpload_begin_def dialog_world_def)

end
